theory Spec2Isabelle
  imports Main
begin

section \<open>Data of the third-party message handlers\<close>

text \<open>
  The handlers of \<^verbatim>\<open>internal/sms-gateway/handlers/messages/3rdparty.go\<close>
  (\<^verbatim>\<open>ThirdPartyController\<close>: \<open>post\<close>, \<open>get\<close>, \<open>postInboxExport\<close>) and of the
  earlier handler file (\<^verbatim>\<open>thirdPartyHandler.postMessage\<close>) are embedded as HOL
  functions. A handler receives the authenticated user and the request context, calls
  the device and message services held by the controller, and returns either an error
  or a reply written to the context. The services are fields of the controller, so they
  are arguments of the model; the state they read and write is passed explicitly.
\<close>

type_synonym time = nat

text \<open>\<^verbatim>\<open>models.User\<close> and \<^verbatim>\<open>models.Device\<close>, by the fields the handlers and the
  services read: the ids and the owner of a device.\<close>

record user =
  user_ID :: string

record device =
  device_ID :: string
  device_UserID :: string

text \<open>\<^verbatim>\<open>smsgateway.Message\<close>, the request body of an enqueue, with the fields the
  enqueue reads: id, text and recipients. An empty \<open>message_ID\<close> is Go's zero value,
  an id the client did not supply.\<close>

record message =
  message_ID :: string
  message_Message :: string
  message_PhoneNumbers :: "string list"

text \<open>\<^verbatim>\<open>smsgateway.MessagesExportRequest\<close>.\<close>

record messages_export_request =
  export_DeviceID :: string
  export_Since :: time
  export_Until :: time

text \<open>\<^verbatim>\<open>messages.EnqueueOptions\<close>.\<close>

record enqueue_options =
  SkipPhoneValidation :: bool

datatype processing_state = Pending | Processed | Sent | Delivered | Failed

text \<open>\<^verbatim>\<open>smsgateway.MessageState\<close>, the snapshot a handler answers with: id, state,
  assigned device and timestamps, never the payload.\<close>

record message_state =
  state_ID :: string
  state_State :: processing_state
  state_DeviceID :: string
  state_CreatedAt :: time
  state_UpdatedAt :: time

subsection \<open>Errors\<close>

text \<open>
  Go error values. \<open>ErrValidation\<close> is the string type \<^verbatim>\<open>messages.ErrValidation\<close>; the
  others are sentinels (\<^verbatim>\<open>messages.ErrMessageAlreadyExists\<close>,
  \<^verbatim>\<open>messages.ErrMessageNotFound\<close>, \<^verbatim>\<open>devices.ErrNotFound\<close>, the empty-slice error of
  \<^verbatim>\<open>slices.Random\<close>); \<open>ErrInvalidTransition\<close> is the rejection of a state move;
  \<open>ErrorString\<close> is any other error with its text and \<open>Wrapped\<close> is
  \<^verbatim>\<open>fmt.Errorf("prefix: %w", err)\<close>.
\<close>

datatype err =
    ErrValidation string
  | ErrMessageAlreadyExists
  | ErrMessageNotFound
  | ErrNotFound
  | ErrEmptySlice
  | ErrInvalidTransition
  | ErrorString string
  | Wrapped string err

text \<open>Modelled from the spec: \<^verbatim>\<open>err.Error()\<close>. The declarations of the sentinel errors
  are not in the handler files, so each sentinel prints the condition the spec's
  taxonomy names for it; the wording only shows in the replies of the sample runs.\<close>

fun Error :: "err \<Rightarrow> string" where
  "Error (ErrValidation s) = s"
| "Error ErrMessageAlreadyExists = ''message already exists''"
| "Error ErrMessageNotFound = ''message not found''"
| "Error ErrNotFound = ''device not found''"
| "Error ErrEmptySlice = ''empty slice''"
| "Error ErrInvalidTransition = ''invalid transition''"
| "Error (ErrorString s) = s"
| "Error (Wrapped prefix e) = prefix @ '': '' @ Error e"

text \<open>\<^verbatim>\<open>errors.Is(err, target)\<close> for a sentinel target: the chain of wrapped errors is
  searched for the target.\<close>

fun errors_Is :: "err \<Rightarrow> err \<Rightarrow> bool" where
  "errors_Is (Wrapped prefix e) target = errors_Is e target"
| "errors_Is e target = (e = target)"

text \<open>\<^verbatim>\<open>errors.As(err, &errValidation)\<close>: the first \<^verbatim>\<open>ErrValidation\<close> of the chain.\<close>

fun errors_As_ErrValidation :: "err \<Rightarrow> err option" where
  "errors_As_ErrValidation (ErrValidation s) = Some (ErrValidation s)"
| "errors_As_ErrValidation (Wrapped prefix e) = errors_As_ErrValidation e"
| "errors_As_ErrValidation e = None"

subsection \<open>Replies\<close>

text \<open>
  What a handler hands back to the framework: \<open>Fiber_Error code text\<close> is
  \<^verbatim>\<open>fiber.NewError(code, text)\<close>, \<open>Returned e\<close> an error returned as it is,
  \<open>JSON code state location\<close> is \<^verbatim>\<open>c.Status(code).JSON(state)\<close> with the
  \<^verbatim>\<open>Location\<close> header when one was set, \<open>SendStatus code\<close> is \<^verbatim>\<open>c.SendStatus(code)\<close>.
\<close>

datatype response =
    Fiber_Error nat string
  | Returned err
  | JSON nat message_state "string option"
  | SendStatus nat

definition StatusOK :: nat where "StatusOK = 200"
definition StatusAccepted :: nat where "StatusAccepted = 202"
definition StatusBadRequest :: nat where "StatusBadRequest = 400"
definition StatusNotFound :: nat where "StatusNotFound = 404"
definition StatusConflict :: nat where "StatusConflict = 409"
definition StatusInternalServerError :: nat where "StatusInternalServerError = 500"

definition route3rdPartyGetMessage :: string where
  "route3rdPartyGetMessage = ''3rdparty.get.message''"

subsection \<open>The request context and the controller\<close>

text \<open>
  \<^verbatim>\<open>*fiber.Ctx\<close> as the handlers use it: \<open>ctx_Body\<close> is the outcome of
  \<^verbatim>\<open>h.BodyParserValidator(c, &req)\<close> (parsing and structural validation of the body),
  \<open>ctx_Query\<close> the query arguments, \<open>ctx_Params\<close> the route parameters and
  \<open>ctx_RouteURL\<close> is \<^verbatim>\<open>c.GetRouteURL(route, {"id": id})\<close>.
\<close>

record 'b ctx =
  ctx_Body :: "err + 'b"
  ctx_Query :: "string \<rightharpoonup> string"
  ctx_Params :: "string \<Rightarrow> string"
  ctx_RouteURL :: "string \<Rightarrow> string \<Rightarrow> err + string"

text \<open>\<^verbatim>\<open>strconv.ParseBool\<close> and \<^verbatim>\<open>c.QueryBool(key, defaultValue)\<close>: an argument that is
  absent reads as the empty string, which does not parse, so the default is returned.\<close>

definition ParseBool :: "string \<Rightarrow> bool option" where
  "ParseBool str =
     (if str \<in> set [''1'', ''t'', ''T'', ''TRUE'', ''true'', ''True''] then Some True
      else if str \<in> set [''0'', ''f'', ''F'', ''FALSE'', ''false'', ''False''] then Some False
      else None)"

definition QueryBool :: "'b ctx \<Rightarrow> string \<Rightarrow> bool \<Rightarrow> bool" where
  "QueryBool c key defaultValue =
     (case ParseBool (case ctx_Query c key of None \<Rightarrow> [] | Some v \<Rightarrow> v) of
        None \<Rightarrow> defaultValue
      | Some value \<Rightarrow> value)"

text \<open>
  The services of the controller (\<^verbatim>\<open>devicesSvc\<close>, \<^verbatim>\<open>messagesSvc\<close>) over a state \<open>'s\<close>.
  The device service only reads; \<open>Enqeue\<close> and \<open>ExportInbox\<close> return the state they
  leave behind. \<open>devicesSvc_Get uid id\<close> is \<^verbatim>\<open>Get(uid, devices.WithID(id))\<close>.
\<close>

record 's ThirdPartyController =
  devicesSvc_Select :: "string \<Rightarrow> 's \<Rightarrow> err + device list"
  devicesSvc_Get :: "string \<Rightarrow> string \<Rightarrow> 's \<Rightarrow> err + device"
  messagesSvc_Enqeue ::
    "device \<Rightarrow> message \<Rightarrow> enqueue_options \<Rightarrow> 's \<Rightarrow> (err + message_state) \<times> 's"
  messagesSvc_GetState :: "user \<Rightarrow> string \<Rightarrow> 's \<Rightarrow> err + message_state"
  messagesSvc_ExportInbox :: "device \<Rightarrow> time \<Rightarrow> time \<Rightarrow> 's \<Rightarrow> err option \<times> 's"

subsection \<open>Random selection\<close>

text \<open>
  \<^verbatim>\<open>slices.Random\<close> of the helper library: an error on the empty slice, otherwise the
  entry at index \<^verbatim>\<open>rand.Intn(len(slice))\<close>. The draw of the generator is the argument
  \<open>rnd\<close>; \<open>Intn rnd n\<close> lies in \<open>[0, n)\<close>.
\<close>

definition Intn :: "nat \<Rightarrow> nat \<Rightarrow> nat" where
  "Intn rnd n = rnd mod n"

definition Random :: "nat \<Rightarrow> 'a list \<Rightarrow> err + 'a" where
  "Random rnd slice =
     (if length slice = 0 then Inl ErrEmptySlice
      else Inr (slice ! Intn rnd (length slice)))"

section \<open>The handlers\<close>

text \<open>Lines 82 to 103 of \<^verbatim>\<open>ThirdPartyController.post\<close>: the reply to what
  \<^verbatim>\<open>Enqeue\<close> returned.\<close>

definition post_reply :: "'b ctx \<Rightarrow> err + message_state \<Rightarrow> response" where
  "post_reply c res =
     (case res of
        Inl err \<Rightarrow>
          (case errors_As_ErrValidation err of
             Some errValidation \<Rightarrow> Fiber_Error StatusBadRequest (Error errValidation)
           | None \<Rightarrow>
               if errors_Is err ErrMessageAlreadyExists
               then Fiber_Error StatusConflict (Error err)
               else Returned (Wrapped ''can't enqueue message'' err))
      | Inr state \<Rightarrow>
          (case ctx_RouteURL c route3rdPartyGetMessage (state_ID state) of
             Inl err \<Rightarrow> JSON StatusAccepted state None
           | Inr location \<Rightarrow> JSON StatusAccepted state (Some location)))"

text \<open>\<^verbatim>\<open>ThirdPartyController.post\<close>, the enqueue handler.\<close>

definition post ::
  "'s ThirdPartyController \<Rightarrow> nat \<Rightarrow> user \<Rightarrow> message ctx \<Rightarrow> 's \<Rightarrow> response \<times> 's" where
  "post h rnd user c s =
     (case ctx_Body c of
        Inl err \<Rightarrow> (Fiber_Error StatusBadRequest (Error err), s)
      | Inr req \<Rightarrow>
          (let skipPhoneValidation = QueryBool c ''skipPhoneValidation'' False in
           case devicesSvc_Select h (user_ID user) s of
             Inl err \<Rightarrow>
               (Fiber_Error StatusInternalServerError
                  ''Can't select devices. Please contact support'', s)
           | Inr devices \<Rightarrow>
               if length devices < 1
               then (Fiber_Error StatusBadRequest ''No devices registered'', s)
               else
                 (case Random rnd devices of
                    Inl err \<Rightarrow> (Returned (Wrapped ''can't get random device'' err), s)
                  | Inr device \<Rightarrow>
                      (case messagesSvc_Enqeue h device req
                              \<lparr>SkipPhoneValidation = skipPhoneValidation\<rparr> s of
                         (res, s') \<Rightarrow> (post_reply c res, s')))))"




text \<open>\<^verbatim>\<open>ThirdPartyController.get\<close>, the state query; it changes no state.\<close>

definition get :: "'s ThirdPartyController \<Rightarrow> user \<Rightarrow> 'b ctx \<Rightarrow> 's \<Rightarrow> response" where
  "get h user c s =
     (let id = ctx_Params c ''id'' in
      case messagesSvc_GetState h user id s of
        Inl err \<Rightarrow>
          if errors_Is err ErrMessageNotFound
          then Fiber_Error StatusNotFound (Error err)
          else Returned err
      | Inr state \<Rightarrow> JSON StatusOK state None)"

text \<open>\<^verbatim>\<open>ThirdPartyController.postInboxExport\<close>, the inbox export trigger.\<close>

definition postInboxExport ::
  "'s ThirdPartyController \<Rightarrow> user \<Rightarrow> messages_export_request ctx \<Rightarrow> 's \<Rightarrow> response \<times> 's"
  where
  "postInboxExport h user c s =
     (case ctx_Body c of
        Inl err \<Rightarrow> (Fiber_Error StatusBadRequest (Error err), s)
      | Inr req \<Rightarrow>
          (case devicesSvc_Get h (user_ID user) (export_DeviceID req) s of
             Inl err \<Rightarrow>
               if errors_Is err ErrNotFound
               then (Fiber_Error StatusBadRequest ''Invalid device ID'', s)
               else (Returned err, s)
           | Inr device \<Rightarrow>
               (case messagesSvc_ExportInbox h device (export_Since req) (export_Until req) s of
                  (Some err, s') \<Rightarrow> (Returned err, s')
                | (None, s') \<Rightarrow> (SendStatus StatusAccepted, s'))))"

section \<open>The services behind the handlers\<close>

text \<open>
  The handlers call the device registry and the message service, whose code is not part
  of the handler files. Their contracts are taken from the spec (sections 3, 4 and 6)
  over an explicit state: the enrolled devices, the message store and the export jobs
  handed to the webhook subsystem.
\<close>

record stored_message =
  msg_id :: string
  msg_owner_account_id :: string
  msg_assigned_device_id :: string
  msg_state :: processing_state
  msg_payload :: message
  msg_created_at :: time
  msg_updated_at :: time

record export_job =
  job_account_id :: string
  job_device_id :: string
  job_since :: time
  job_until :: time

record world =
  w_devices :: "device list"
  w_messages :: "stored_message list"
  w_exports :: "export_job list"

text \<open>Modelled from the spec: the registry's \<^verbatim>\<open>listDevices(account_id)\<close>
  (\<^verbatim>\<open>devices.Service.Select\<close>, absent from the sources), the ordered sequence of the
  devices the account owns.\<close>

definition devices_Select :: "string \<Rightarrow> world \<Rightarrow> err + device list" where
  "devices_Select account_id w =
     Inr (filter (\<lambda>d. device_UserID d = account_id) (w_devices w))"

text \<open>Modelled from the spec: the registry's \<^verbatim>\<open>getDevice(account_id, device_id)\<close>
  (\<^verbatim>\<open>devices.Service.Get\<close>, absent from the sources), which resolves the id within the
  account's device set or reports that it is not found.\<close>

definition devices_Get :: "string \<Rightarrow> string \<Rightarrow> world \<Rightarrow> err + device" where
  "devices_Get account_id device_id w =
     (case find (\<lambda>d. device_UserID d = account_id \<and> device_ID d = device_id) (w_devices w) of
        None \<Rightarrow> Inl ErrNotFound
      | Some d \<Rightarrow> Inr d)"

text \<open>Modelled from the spec: the message store's read keyed by account and message id
  (the store is absent from the sources).\<close>

definition lookup_message :: "string \<Rightarrow> string \<Rightarrow> world \<Rightarrow> stored_message option" where
  "lookup_message account_id message_id w =
     find (\<lambda>m. msg_owner_account_id m = account_id \<and> msg_id m = message_id) (w_messages w)"

text \<open>Modelled from the spec: the state snapshot of a stored message (id, state, assigned
  device, timestamps), which leaves the payload out.\<close>

definition snapshot :: "stored_message \<Rightarrow> message_state" where
  "snapshot m =
     \<lparr>state_ID = msg_id m, state_State = msg_state m,
      state_DeviceID = msg_assigned_device_id m,
      state_CreatedAt = msg_created_at m, state_UpdatedAt = msg_updated_at m\<rparr>"

text \<open>Modelled from the spec: the recipient-format check of the validation service
  (absent from the sources). \<open>check\<close> is the service's verdict on one phone number,
  \<open>Some reason\<close> when it is malformed; the first malformed recipient fails the request
  with a validation error.\<close>

fun validate_recipients :: "(string \<Rightarrow> string option) \<Rightarrow> string list \<Rightarrow> err option" where
  "validate_recipients check [] = None"
| "validate_recipients check (p # ps) =
     (case check p of
        Some reason \<Rightarrow> Some (ErrValidation reason)
      | None \<Rightarrow> validate_recipients check ps)"

text \<open>Modelled from the spec: the enqueue of section 4.3 for the device the handler
  selected (\<^verbatim>\<open>messages.Service.Enqeue\<close>, absent from the sources). The payload
  constraint comes first and is skipped on request; an absent id is replaced by the
  generated one (\<open>fresh_id\<close>); an id already stored under the account is a conflict;
  otherwise a \<open>Pending\<close> record assigned to the device is appended with both timestamps
  set to \<open>now\<close>, and its snapshot is returned.\<close>

definition messages_Enqeue ::
  "(string \<Rightarrow> string option) \<Rightarrow> time \<Rightarrow> string \<Rightarrow>
   device \<Rightarrow> message \<Rightarrow> enqueue_options \<Rightarrow> world \<Rightarrow> (err + message_state) \<times> world" where
  "messages_Enqeue check now fresh_id device request options w =
     (case (if SkipPhoneValidation options then None
            else validate_recipients check (message_PhoneNumbers request)) of
        Some e \<Rightarrow> (Inl e, w)
      | None \<Rightarrow>
          (let id = (if message_ID request = [] then fresh_id else message_ID request) in
           case lookup_message (device_UserID device) id w of
             Some existing \<Rightarrow> (Inl ErrMessageAlreadyExists, w)
           | None \<Rightarrow>
               (let m = \<lparr>msg_id = id, msg_owner_account_id = device_UserID device,
                          msg_assigned_device_id = device_ID device, msg_state = Pending,
                          msg_payload = request, msg_created_at = now, msg_updated_at = now\<rparr>
                in (Inr (snapshot m), w\<lparr>w_messages := w_messages w @ [m]\<rparr>))))"

text \<open>Modelled from the spec: the state query of section 4.4
  (\<^verbatim>\<open>messages.Service.GetState\<close>, absent from the sources), scoped to the account.\<close>

definition messages_GetState :: "user \<Rightarrow> string \<Rightarrow> world \<Rightarrow> err + message_state" where
  "messages_GetState account message_id w =
     (case lookup_message (user_ID account) message_id w of
        None \<Rightarrow> Inl ErrMessageNotFound
      | Some m \<Rightarrow> Inr (snapshot m))"

text \<open>Modelled from the spec: the hand-off of an export job to the webhook subsystem
  (\<^verbatim>\<open>messages.Service.ExportInbox\<close>, absent from the sources).\<close>

definition messages_ExportInbox :: "device \<Rightarrow> time \<Rightarrow> time \<Rightarrow> world \<Rightarrow> err option \<times> world" where
  "messages_ExportInbox device since until w =
     (None,
      w\<lparr>w_exports := w_exports w @
          [\<lparr>job_account_id = device_UserID device, job_device_id = device_ID device,
            job_since = since, job_until = until\<rparr>]\<rparr>)"

text \<open>Modelled from the spec: the state machine of section 4.2 (the code that applies
  transitions is absent from the sources). The listed moves are the only ones allowed.\<close>

fun transition_allowed :: "processing_state \<Rightarrow> processing_state \<Rightarrow> bool" where
  "transition_allowed Pending target = (target = Processed \<or> target = Failed)"
| "transition_allowed Processed target = (target = Sent \<or> target = Failed)"
| "transition_allowed Sent target = (target = Delivered \<or> target = Failed)"
| "transition_allowed Delivered target = False"
| "transition_allowed Failed target = False"

definition is_terminal :: "processing_state \<Rightarrow> bool" where
  "is_terminal st = (st = Delivered \<or> st = Failed)"

text \<open>Modelled from the spec: an externally attempted transition of the message
  \<open>message_id\<close> of an account to the state \<open>target\<close> at time \<open>now\<close>. An allowed move
  stores the new state and advances \<open>updated_at\<close>; any other is rejected and nothing
  is written.\<close>

definition messages_UpdateState ::
  "time \<Rightarrow> string \<Rightarrow> string \<Rightarrow> processing_state \<Rightarrow> world \<Rightarrow> (err + message_state) \<times> world"
  where
  "messages_UpdateState now account_id message_id target w =
     (case lookup_message account_id message_id w of
        None \<Rightarrow> (Inl ErrMessageNotFound, w)
      | Some m \<Rightarrow>
          if transition_allowed (msg_state m) target
          then
            (let m' = m\<lparr>msg_state := target, msg_updated_at := now\<rparr> in
             (Inr (snapshot m'),
              w\<lparr>w_messages :=
                  map (\<lambda>x. if msg_owner_account_id x = account_id \<and> msg_id x = message_id
                            then m' else x) (w_messages w)\<rparr>))
          else (Inl ErrInvalidTransition, w))"

text \<open>The controller wired to these services.\<close>

definition core :: "(string \<Rightarrow> string option) \<Rightarrow> time \<Rightarrow> string \<Rightarrow> world ThirdPartyController"
  where
  "core check now fresh_id =
     \<lparr>devicesSvc_Select = devices_Select,
      devicesSvc_Get = devices_Get,
      messagesSvc_Enqeue = messages_Enqeue check now fresh_id,
      messagesSvc_GetState = messages_GetState,
      messagesSvc_ExportInbox = messages_ExportInbox\<rparr>"

section \<open>Sample data\<close>

text \<open>
  The scenario of the spec's section 8: account \<open>A\<close> with the devices \<open>D1\<close> and \<open>D2\<close>,
  account \<open>B\<close> with the device \<open>D3\<close>, and the message \<open>m1\<close> stored under \<open>A\<close>. In
  \<open>sample_world_no_devices\<close> the devices of \<open>A\<close> are gone while its message remains.
  \<open>sample_check\<close> accepts the phone numbers that start with a plus sign.
\<close>

definition sample_check :: "string \<Rightarrow> string option" where
  "sample_check p =
     (case p of
        [] \<Rightarrow> Some ''empty phone number''
      | ch # rest \<Rightarrow> if ch = CHR ''+'' then None else Some ''invalid phone number'')"

definition account_A :: user where "account_A = \<lparr>user_ID = ''A''\<rparr>"
definition account_B :: user where "account_B = \<lparr>user_ID = ''B''\<rparr>"

definition D1 :: device where "D1 = \<lparr>device_ID = ''D1'', device_UserID = ''A''\<rparr>"
definition D2 :: device where "D2 = \<lparr>device_ID = ''D2'', device_UserID = ''A''\<rparr>"
definition D3 :: device where "D3 = \<lparr>device_ID = ''D3'', device_UserID = ''B''\<rparr>"

definition request_m1 :: message where
  "request_m1 =
     \<lparr>message_ID = ''m1'', message_Message = ''hi'', message_PhoneNumbers = [''+15550100'']\<rparr>"

definition request_m2 :: message where
  "request_m2 =
     \<lparr>message_ID = ''m2'', message_Message = ''hi'', message_PhoneNumbers = [''+15550100'']\<rparr>"

definition request_malformed :: message where
  "request_malformed =
     \<lparr>message_ID = ''m1'', message_Message = ''hi'', message_PhoneNumbers = [''12345'']\<rparr>"

definition stored_m1 :: stored_message where
  "stored_m1 =
     \<lparr>msg_id = ''m1'', msg_owner_account_id = ''A'', msg_assigned_device_id = ''D1'',
      msg_state = Pending, msg_payload = request_m1, msg_created_at = 5, msg_updated_at = 5\<rparr>"

definition sample_world :: world where
  "sample_world = \<lparr>w_devices = [D1, D2, D3], w_messages = [stored_m1], w_exports = []\<rparr>"

definition sample_world_no_devices :: world where
  "sample_world_no_devices = \<lparr>w_devices = [D3], w_messages = [stored_m1], w_exports = []\<rparr>"

definition export_request_D3 :: messages_export_request where
  "export_request_D3 = \<lparr>export_DeviceID = ''D3'', export_Since = 1, export_Until = 9\<rparr>"


definition stored_m9 :: stored_message where
  "stored_m9 =
     \<lparr>msg_id = ''m9'', msg_owner_account_id = ''A'', msg_assigned_device_id = ''D1'',
      msg_state = Delivered, msg_payload = request_m1, msg_created_at = 2, msg_updated_at = 4\<rparr>"

definition sample_world_delivered :: world where
  "sample_world_delivered =
     \<lparr>w_devices = [D1, D2, D3], w_messages = [stored_m1, stored_m9], w_exports = []\<rparr>"

definition sample_ctx :: "'b \<Rightarrow> (string \<rightharpoonup> string) \<Rightarrow> string \<Rightarrow> 'b ctx" where
  "sample_ctx req query id_param =
     \<lparr>ctx_Body = Inr req, ctx_Query = query, ctx_Params = (\<lambda>key. id_param),
      ctx_RouteURL = (\<lambda>route message_id. Inr (''/3rdparty/v1/messages/'' @ message_id))\<rparr>"





section \<open>Theorems\<close>

subsection \<open>Facts about the sample data\<close>

lemma sample_select_none:
  "devices_Select (user_ID account_A) sample_world_no_devices = Inr []"
  by (simp add: devices_Select_def account_A_def sample_world_no_devices_def D3_def)

lemma sample_select_A:
  "devices_Select (user_ID account_A) sample_world = Inr [D1, D2]"
  by (simp add: devices_Select_def account_A_def sample_world_def D1_def D2_def D3_def)

lemma sample_ctx_Body: "ctx_Body (sample_ctx req query id_param) = Inr req"
  by (simp add: sample_ctx_def)

lemma sample_lookup_m1:
  "lookup_message ''A'' ''m1'' sample_world = Some stored_m1"
  by (simp add: lookup_message_def sample_world_def stored_m1_def)

lemma sample_lookup_m1_no_devices:
  "lookup_message ''A'' ''m1'' sample_world_no_devices = Some stored_m1"
  by (simp add: lookup_message_def sample_world_no_devices_def stored_m1_def)

lemma sample_enqueue_duplicate:
  "messages_Enqeue sample_check 7 ''g1'' D1 request_m1 \<lparr>SkipPhoneValidation = False\<rparr>
     sample_world = (Inl ErrMessageAlreadyExists, sample_world)"
  by (simp add: messages_Enqeue_def request_m1_def sample_check_def D1_def sample_lookup_m1)

lemma sample_enqueue_malformed:
  "messages_Enqeue sample_check 7 ''g1'' D1 request_malformed \<lparr>SkipPhoneValidation = False\<rparr>
     sample_world = (Inl (ErrValidation ''invalid phone number''), sample_world)"
  by (simp add: messages_Enqeue_def request_malformed_def sample_check_def)

lemma sample_QueryBool_empty:
  "QueryBool (sample_ctx req Map.empty id_param) ''skipPhoneValidation'' False = False"
  by (simp add: QueryBool_def ParseBool_def sample_ctx_def)

lemma sample_get_foreign_device:
  "devices_Get ''A'' ''D3'' sample_world = Inl ErrNotFound"
  by (simp add: devices_Get_def sample_world_def D1_def D2_def D3_def)












subsection \<open>The no-device guard\<close>

text \<open>
  C2. When the device set resolved for the account is empty, the enqueue of a parsed
  request fails with the no-device error (bad request, "No devices registered") and
  the state is returned as it was: nothing is written to the message store, whatever
  the message service is.
\<close>

theorem post_no_devices:
  assumes "ctx_Body c = Inr req"
    and "devicesSvc_Select h (user_ID user) s = Inr []"
  shows "post h rnd user c s = (Fiber_Error StatusBadRequest ''No devices registered'', s)"
  using assms by (simp add: post_def)

theorem post_no_devices_witness:
  "ctx_Body (sample_ctx request_m2 Map.empty []) = Inr request_m2
   \<and> devicesSvc_Select (core sample_check 7 ''g1'') (user_ID account_A)
        sample_world_no_devices = Inr []
   \<and> post (core sample_check 7 ''g1'') 0 account_A (sample_ctx request_m2 Map.empty [])
        sample_world_no_devices
      = (Fiber_Error StatusBadRequest ''No devices registered'', sample_world_no_devices)"
proof -
  have b: "ctx_Body (sample_ctx request_m2 Map.empty []) = Inr request_m2"
    by (rule sample_ctx_Body)
  have d: "devicesSvc_Select (core sample_check 7 ''g1'') (user_ID account_A)
             sample_world_no_devices = Inr []"
    by (simp add: core_def sample_select_none)
  from post_no_devices [OF b d] b d show ?thesis by simp
qed

subsection \<open>Order of the checks\<close>

text \<open>
  C9. The empty-device check comes before the duplicate-id check and before the
  phone-number validation, both of which belong to the message service: with no device
  the enqueue of a parsed request fails with the no-device error whatever the message
  service would report (a duplicate id, a malformed recipient), and that reply is not
  the conflict reply.
\<close>

theorem post_no_devices_precedes_enqueue:
  assumes "ctx_Body c = Inr req"
    and "devicesSvc_Select h (user_ID user) s = Inr []"
  shows "post (h\<lparr>messagesSvc_Enqeue := enq\<rparr>) rnd user c s
           = (Fiber_Error StatusBadRequest ''No devices registered'', s)
         \<and> Fiber_Error StatusBadRequest ''No devices registered''
             \<noteq> post_reply c (Inl ErrMessageAlreadyExists)"
  using assms by (simp add: post_def post_reply_def StatusBadRequest_def StatusConflict_def)

theorem post_no_devices_precedes_enqueue_witness:
  "post ((core sample_check 7 ''g1'')\<lparr>messagesSvc_Enqeue := messages_Enqeue sample_check 7 ''g1''\<rparr>)
      0 account_A (sample_ctx request_malformed Map.empty []) sample_world_no_devices
     = (Fiber_Error StatusBadRequest ''No devices registered'', sample_world_no_devices)
   \<and> lookup_message ''A'' (message_ID request_malformed) sample_world_no_devices = Some stored_m1
   \<and> validate_recipients sample_check (message_PhoneNumbers request_malformed)
       = Some (ErrValidation ''invalid phone number'')
   \<and> post (core sample_check 7 ''g1'') 0 account_A (sample_ctx request_malformed Map.empty [])
        sample_world
     = (Fiber_Error StatusBadRequest ''invalid phone number'', sample_world)"
proof -
  have b: "ctx_Body (sample_ctx request_malformed Map.empty []) = Inr request_malformed"
    by (rule sample_ctx_Body)
  have d: "devicesSvc_Select (core sample_check 7 ''g1'') (user_ID account_A)
             sample_world_no_devices = Inr []"
    by (simp add: core_def sample_select_none)
  have l: "lookup_message ''A'' (message_ID request_malformed) sample_world_no_devices
             = Some stored_m1"
    by (simp add: request_malformed_def sample_lookup_m1_no_devices)
  have v: "validate_recipients sample_check (message_PhoneNumbers request_malformed)
             = Some (ErrValidation ''invalid phone number'')"
    by (simp add: request_malformed_def sample_check_def)
  have p: "post (core sample_check 7 ''g1'') 0 account_A
             (sample_ctx request_malformed Map.empty []) sample_world
           = (Fiber_Error StatusBadRequest ''invalid phone number'', sample_world)"
    by (simp add: post_def post_reply_def sample_ctx_Body core_def sample_select_A Random_def
        Intn_def sample_QueryBool_empty sample_enqueue_malformed)
  from post_no_devices_precedes_enqueue [OF b d] l v p show ?thesis by simp
qed

subsection \<open>The default of the skip flag\<close>

text \<open>
  C10. An enqueue without the \<^verbatim>\<open>skipPhoneValidation\<close> query argument reads the flag as
  false: it behaves as the same request with the argument set to \<^verbatim>\<open>false\<close>, and the
  message service is called with \<open>SkipPhoneValidation = False\<close>, so phone numbers are
  validated.
\<close>

theorem post_skipPhoneValidation_default:
  assumes "ctx_Query c ''skipPhoneValidation'' = None"
  shows "QueryBool c ''skipPhoneValidation'' False = False
    \<and> post h rnd user c s
        = post h rnd user (c\<lparr>ctx_Query := (ctx_Query c)(''skipPhoneValidation'' \<mapsto> ''false'')\<rparr>) s
    \<and> (\<forall>req devices. ctx_Body c = Inr req
          \<longrightarrow> devicesSvc_Select h (user_ID user) s = Inr devices \<longrightarrow> devices \<noteq> []
          \<longrightarrow> post h rnd user c s
              = (case messagesSvc_Enqeue h (devices ! Intn rnd (length devices)) req
                        \<lparr>SkipPhoneValidation = False\<rparr> s of
                   (res, s') \<Rightarrow> (post_reply c res, s')))"
  using assms
  by (auto simp add: post_def post_reply_def QueryBool_def ParseBool_def Random_def
      split: sum.splits prod.splits)

theorem post_skipPhoneValidation_default_witness:
  "ctx_Query (sample_ctx request_malformed Map.empty []) ''skipPhoneValidation'' = None
   \<and> post (core sample_check 7 ''g1'') 0 account_A (sample_ctx request_malformed Map.empty [])
        sample_world
     = post (core sample_check 7 ''g1'') 0 account_A
        (sample_ctx request_malformed [''skipPhoneValidation'' \<mapsto> ''false''] []) sample_world
   \<and> post (core sample_check 7 ''g1'') 0 account_A (sample_ctx request_malformed Map.empty [])
        sample_world
     = (Fiber_Error StatusBadRequest ''invalid phone number'', sample_world)"
proof -
  have q: "ctx_Query (sample_ctx request_malformed Map.empty []) ''skipPhoneValidation'' = None"
    by (simp add: sample_ctx_def)
  have c: "(sample_ctx request_malformed Map.empty [])
             \<lparr>ctx_Query := (ctx_Query (sample_ctx request_malformed Map.empty []))
                (''skipPhoneValidation'' \<mapsto> ''false'')\<rparr>
           = sample_ctx request_malformed [''skipPhoneValidation'' \<mapsto> ''false''] []"
    by (simp add: sample_ctx_def)
  have p: "post (core sample_check 7 ''g1'') 0 account_A
             (sample_ctx request_malformed Map.empty []) sample_world
           = (Fiber_Error StatusBadRequest ''invalid phone number'', sample_world)"
    by (simp add: post_def post_reply_def sample_ctx_Body core_def sample_select_A Random_def
        Intn_def sample_QueryBool_empty sample_enqueue_malformed)
  from post_skipPhoneValidation_default [OF q, of "core sample_check 7 ''g1''" 0 account_A
      sample_world] q c p
  show ?thesis by simp
qed

subsection \<open>Export ownership\<close>

text \<open>
  C4. When the registry reports that the device id of an export request is not found
  among the account's devices, the export fails with the invalid-device error (bad
  request, "Invalid device ID") and the state is returned as it was, whatever the
  export collaborator is: it is never invoked.
\<close>

theorem postInboxExport_invalid_device:
  assumes "ctx_Body c = Inr req"
    and "devicesSvc_Get h (user_ID user) (export_DeviceID req) s = Inl err"
    and "errors_Is err ErrNotFound"
  shows "postInboxExport (h\<lparr>messagesSvc_ExportInbox := export\<rparr>) user c s
           = (Fiber_Error StatusBadRequest ''Invalid device ID'', s)"
  using assms by (simp add: postInboxExport_def)

theorem postInboxExport_invalid_device_witness:
  "devices_Get (user_ID account_A) (export_DeviceID export_request_D3) sample_world
     = Inl ErrNotFound
   \<and> devices_Get (user_ID account_B) (export_DeviceID export_request_D3) sample_world = Inr D3
   \<and> postInboxExport
        ((core sample_check 7 ''g1'')\<lparr>messagesSvc_ExportInbox := messages_ExportInbox\<rparr>)
        account_A (sample_ctx export_request_D3 Map.empty []) sample_world
      = (Fiber_Error StatusBadRequest ''Invalid device ID'', sample_world)
   \<and> postInboxExport (core sample_check 7 ''g1'') account_B
        (sample_ctx export_request_D3 Map.empty []) sample_world
      = (SendStatus StatusAccepted,
         sample_world\<lparr>w_exports :=
           [\<lparr>job_account_id = ''B'', job_device_id = ''D3'', job_since = 1, job_until = 9\<rparr>]\<rparr>)"
proof -
  have b: "ctx_Body (sample_ctx export_request_D3 Map.empty []) = Inr export_request_D3"
    by (rule sample_ctx_Body)
  have g: "devices_Get (user_ID account_A) (export_DeviceID export_request_D3) sample_world
             = Inl ErrNotFound"
    by (simp add: account_A_def export_request_D3_def sample_get_foreign_device)
  have g': "devicesSvc_Get (core sample_check 7 ''g1'') (user_ID account_A)
              (export_DeviceID export_request_D3) sample_world = Inl ErrNotFound"
    by (simp add: core_def g)
  have i: "errors_Is ErrNotFound ErrNotFound" by simp
  have gB: "devices_Get (user_ID account_B) (export_DeviceID export_request_D3) sample_world
              = Inr D3"
    by (simp add: devices_Get_def account_B_def export_request_D3_def sample_world_def
        D1_def D2_def D3_def)
  have e: "postInboxExport (core sample_check 7 ''g1'') account_B
        (sample_ctx export_request_D3 Map.empty []) sample_world
      = (SendStatus StatusAccepted,
         sample_world\<lparr>w_exports :=
           [\<lparr>job_account_id = ''B'', job_device_id = ''D3'', job_since = 1, job_until = 9\<rparr>]\<rparr>)"
    by (simp add: postInboxExport_def b core_def gB messages_ExportInbox_def)
      (simp add: export_request_D3_def D3_def sample_world_def)
  from postInboxExport_invalid_device [OF b g' i] g gB e show ?thesis by simp
qed

subsection \<open>Facts about the services\<close>

lemma find_filter_stronger:
  "(\<And>x. P x \<Longrightarrow> Q x) \<Longrightarrow> find P (filter Q xs) = find P xs"
  by (induction xs) auto

lemma lookup_message_None:
  "(lookup_message a i w = None)
     = (\<not> (\<exists>m \<in> set (w_messages w). msg_owner_account_id m = a \<and> msg_id m = i))"
  by (auto simp add: lookup_message_def find_None_iff)

lemma lookup_message_Some:
  "lookup_message a i w = Some m
     \<Longrightarrow> m \<in> set (w_messages w) \<and> msg_owner_account_id m = a \<and> msg_id m = i"
  by (auto simp add: lookup_message_def find_Some_iff)

lemma lookup_message_own:
  "lookup_message a i (w\<lparr>w_messages := filter (\<lambda>m. msg_owner_account_id m = a) (w_messages w)\<rparr>)
     = lookup_message a i w"
  by (simp add: lookup_message_def find_filter_stronger
      [of "\<lambda>m. msg_owner_account_id m = a \<and> msg_id m = i" "\<lambda>m. msg_owner_account_id m = a"])

lemma Random_member: "Random rnd xs = Inr d \<Longrightarrow> d \<in> set xs"
  by (auto simp add: Random_def Intn_def split: if_splits)

lemma devices_Select_owner:
  "devices_Select account_id w = Inr devices \<Longrightarrow> d \<in> set devices
     \<Longrightarrow> device_UserID d = account_id"
  by (auto simp add: devices_Select_def)

lemma errors_As_ErrValidation_Some:
  "errors_As_ErrValidation err = Some ev \<Longrightarrow> \<exists>reason. ev = ErrValidation reason"
  by (induction err rule: errors_As_ErrValidation.induct) auto


lemma devices_Get_not_owned:
  "(devices_Get account_id device_id w = Inl ErrNotFound)
     = (\<not> (\<exists>d \<in> set (w_devices w). device_UserID d = account_id \<and> device_ID d = device_id))"
proof (cases "find (\<lambda>d. device_UserID d = account_id \<and> device_ID d = device_id) (w_devices w)")
  case None
  then have "\<not> (\<exists>d \<in> set (w_devices w). device_UserID d = account_id \<and> device_ID d = device_id)"
    by (auto simp add: find_None_iff)
  moreover from None have "devices_Get account_id device_id w = Inl ErrNotFound"
    by (simp add: devices_Get_def)
  ultimately show ?thesis by simp
next
  case (Some d)
  then have "d \<in> set (w_devices w) \<and> device_UserID d = account_id \<and> device_ID d = device_id"
    by (auto simp add: find_Some_iff)
  with Some show ?thesis by (auto simp add: devices_Get_def)
qed


lemma messages_Enqeue_fresh:
  assumes "lookup_message (device_UserID device)
             (if message_ID request = [] then fresh_id else message_ID request) w = None"
    and "SkipPhoneValidation options
         \<or> validate_recipients check (message_PhoneNumbers request) = None"
  shows "\<exists>st. fst (messages_Enqeue check now fresh_id device request options w) = Inr st
              \<and> state_State st = Pending"
  using assms by (auto simp add: messages_Enqeue_def Let_def snapshot_def)




subsection \<open>The state query\<close>

text \<open>
  C5. The state query of an account for a message id fails with the not-found error
  exactly when the store holds no message with that id under the account; a reply with
  a state is the snapshot of a message of the account itself; and the messages of other
  accounts do not change the reply, so an id owned by another account cannot be told
  from one that does not exist.
\<close>

theorem get_scoped_to_account:
  "(get (core check now fresh_id) user c w = Fiber_Error StatusNotFound (Error ErrMessageNotFound))
     = (\<not> (\<exists>m \<in> set (w_messages w).
              msg_owner_account_id m = user_ID user \<and> msg_id m = ctx_Params c ''id''))
   \<and> (\<forall>code st loc. get (core check now fresh_id) user c w = JSON code st loc
         \<longrightarrow> (\<exists>m \<in> set (w_messages w).
               msg_owner_account_id m = user_ID user \<and> msg_id m = ctx_Params c ''id''
               \<and> st = snapshot m))
   \<and> get (core check now fresh_id) user c w
       = get (core check now fresh_id) user c
           (w\<lparr>w_messages := filter (\<lambda>m. msg_owner_account_id m = user_ID user) (w_messages w)\<rparr>)"
proof (intro conjI)
  show "(get (core check now fresh_id) user c w
           = Fiber_Error StatusNotFound (Error ErrMessageNotFound))
        = (\<not> (\<exists>m \<in> set (w_messages w).
              msg_owner_account_id m = user_ID user \<and> msg_id m = ctx_Params c ''id''))"
  proof (cases "lookup_message (user_ID user) (ctx_Params c ''id'') w")
    case None
    then show ?thesis
      using lookup_message_None [of "user_ID user" "ctx_Params c ''id''" w]
      by (simp add: get_def core_def messages_GetState_def)
  next
    case (Some m)
    then show ?thesis
      using lookup_message_None [of "user_ID user" "ctx_Params c ''id''" w]
      by (simp add: get_def core_def messages_GetState_def)
  qed
  show "\<forall>code st loc. get (core check now fresh_id) user c w = JSON code st loc
         \<longrightarrow> (\<exists>m \<in> set (w_messages w).
               msg_owner_account_id m = user_ID user \<and> msg_id m = ctx_Params c ''id''
               \<and> st = snapshot m)"
    by (cases "lookup_message (user_ID user) (ctx_Params c ''id'') w")
      (auto simp add: get_def core_def messages_GetState_def dest: lookup_message_Some)
  show "get (core check now fresh_id) user c w
       = get (core check now fresh_id) user c
           (w\<lparr>w_messages := filter (\<lambda>m. msg_owner_account_id m = user_ID user) (w_messages w)\<rparr>)"
    by (simp add: get_def core_def messages_GetState_def lookup_message_own)
qed

theorem get_scoped_to_account_witness:
  "lookup_message ''A'' ''m1'' sample_world = Some stored_m1
   \<and> get (core sample_check 7 ''g1'') account_B (sample_ctx request_m1 Map.empty ''m1'')
        sample_world
      = Fiber_Error StatusNotFound (Error ErrMessageNotFound)
   \<and> get (core sample_check 7 ''g1'') account_B (sample_ctx request_m1 Map.empty ''m1'')
        sample_world
      = get (core sample_check 7 ''g1'') account_B (sample_ctx request_m1 Map.empty ''m1'')
          (sample_world\<lparr>w_messages := []\<rparr>)
   \<and> get (core sample_check 7 ''g1'') account_A (sample_ctx request_m1 Map.empty ''m1'')
        sample_world
      = JSON StatusOK (snapshot stored_m1) None"
proof -
  have f: "filter (\<lambda>m. msg_owner_account_id m = user_ID account_B) (w_messages sample_world) = []"
    by (simp add: sample_world_def stored_m1_def account_B_def)
  have n: "\<not> (\<exists>m \<in> set (w_messages sample_world).
              msg_owner_account_id m = user_ID account_B
              \<and> msg_id m = ctx_Params (sample_ctx request_m1 Map.empty ''m1'') ''id'')"
    by (simp add: sample_world_def stored_m1_def account_B_def)
  have a: "get (core sample_check 7 ''g1'') account_A (sample_ctx request_m1 Map.empty ''m1'')
        sample_world = JSON StatusOK (snapshot stored_m1) None"
    by (simp add: get_def core_def messages_GetState_def sample_ctx_def account_A_def
        sample_lookup_m1)
  note g = get_scoped_to_account [of sample_check 7 "''g1''" account_B
      "sample_ctx request_m1 Map.empty ''m1''" sample_world]
  from g n have g1: "get (core sample_check 7 ''g1'') account_B
      (sample_ctx request_m1 Map.empty ''m1'') sample_world
      = Fiber_Error StatusNotFound (Error ErrMessageNotFound)"
    by blast
  from g have "get (core sample_check 7 ''g1'') account_B
      (sample_ctx request_m1 Map.empty ''m1'') sample_world
      = get (core sample_check 7 ''g1'') account_B (sample_ctx request_m1 Map.empty ''m1'')
          (sample_world\<lparr>w_messages :=
             filter (\<lambda>m. msg_owner_account_id m = user_ID account_B)
               (w_messages sample_world)\<rparr>)"
    by blast
  with f have g3: "get (core sample_check 7 ''g1'') account_B
      (sample_ctx request_m1 Map.empty ''m1'') sample_world
      = get (core sample_check 7 ''g1'') account_B (sample_ctx request_m1 Map.empty ''m1'')
          (sample_world\<lparr>w_messages := []\<rparr>)"
    by simp
  from sample_lookup_m1 g1 g3 a show ?thesis by blast
qed

subsection \<open>The record of a successful enqueue\<close>

text \<open>
  C6. When the enqueue succeeds, exactly one record is appended to the store: it is
  \<open>Pending\<close>, assigned to the device the selector drew from the account's devices,
  owned by the account, created and updated at the same time, and the reply (accepted)
  is the snapshot of that record.
\<close>

theorem post_success_record:
  assumes "post (core check now fresh_id) rnd user c w = (JSON code st loc, w')"
  shows "\<exists>req devices d m.
           ctx_Body c = Inr req
         \<and> devices_Select (user_ID user) w = Inr devices
         \<and> Random rnd devices = Inr d
         \<and> w' = w\<lparr>w_messages := w_messages w @ [m]\<rparr>
         \<and> msg_state m = Pending
         \<and> msg_assigned_device_id m = device_ID d
         \<and> msg_owner_account_id m = user_ID user
         \<and> msg_created_at m = now \<and> msg_updated_at m = now
         \<and> msg_payload m = req
         \<and> st = snapshot m
         \<and> code = StatusAccepted"
proof -
  from assms obtain req where b: "ctx_Body c = Inr req"
    by (cases "ctx_Body c") (auto simp add: post_def)
  obtain devices where s: "devices_Select (user_ID user) w = Inr devices"
    by (simp add: devices_Select_def)
  from assms b s have n: "\<not> length devices < 1"
    by (auto simp add: post_def core_def split: if_splits)
  then obtain d where r: "Random rnd devices = Inr d"
    by (auto simp add: Random_def)
  from Random_member [OF r] s have o: "device_UserID d = user_ID user"
    by (rule devices_Select_owner [rotated])
  from assms b s n r
  have e: "(case messages_Enqeue check now fresh_id d req
                  \<lparr>SkipPhoneValidation = QueryBool c ''skipPhoneValidation'' False\<rparr> w of
              (res, s') \<Rightarrow> (post_reply c res, s')) = (JSON code st loc, w')"
    by (simp add: post_def core_def)
  then obtain m where
    "w' = w\<lparr>w_messages := w_messages w @ [m]\<rparr>" "msg_state m = Pending"
    "msg_assigned_device_id m = device_ID d" "msg_owner_account_id m = device_UserID d"
    "msg_created_at m = now" "msg_updated_at m = now" "msg_payload m = req"
    "st = snapshot m" "code = StatusAccepted"
    by (auto simp add: post_reply_def messages_Enqeue_def Let_def
        split: sum.splits if_splits option.splits prod.splits)
  with b s r o show ?thesis by auto
qed

theorem post_success_record_witness:
  "post (core sample_check 7 ''g1'') 1 account_A (sample_ctx request_m2 Map.empty [])
     sample_world
   = (JSON StatusAccepted
        \<lparr>state_ID = ''m2'', state_State = Pending, state_DeviceID = ''D2'',
         state_CreatedAt = 7, state_UpdatedAt = 7\<rparr>
        (Some ''/3rdparty/v1/messages/m2''),
      sample_world\<lparr>w_messages := [stored_m1,
        \<lparr>msg_id = ''m2'', msg_owner_account_id = ''A'', msg_assigned_device_id = ''D2'',
         msg_state = Pending, msg_payload = request_m2, msg_created_at = 7,
         msg_updated_at = 7\<rparr>]\<rparr>)
   \<and> (\<exists>req devices d m.
         ctx_Body (sample_ctx request_m2 Map.empty []) = Inr req
       \<and> devices_Select (user_ID account_A) sample_world = Inr devices
       \<and> Random 1 devices = Inr d
       \<and> sample_world\<lparr>w_messages := [stored_m1,
            \<lparr>msg_id = ''m2'', msg_owner_account_id = ''A'', msg_assigned_device_id = ''D2'',
             msg_state = Pending, msg_payload = request_m2, msg_created_at = 7,
             msg_updated_at = 7\<rparr>]\<rparr>
           = sample_world\<lparr>w_messages := w_messages sample_world @ [m]\<rparr>
       \<and> msg_state m = Pending
       \<and> msg_assigned_device_id m = device_ID d
       \<and> msg_owner_account_id m = user_ID account_A
       \<and> msg_created_at m = 7 \<and> msg_updated_at m = 7
       \<and> msg_payload m = req
       \<and> \<lparr>state_ID = ''m2'', state_State = Pending, state_DeviceID = ''D2'',
            state_CreatedAt = 7, state_UpdatedAt = 7\<rparr> = snapshot m
       \<and> StatusAccepted = StatusAccepted)"
proof -
  have l: "lookup_message ''A'' ''m2'' sample_world = None"
    by (simp add: lookup_message_def sample_world_def stored_m1_def)
  have e: "messages_Enqeue sample_check 7 ''g1'' D2 request_m2 \<lparr>SkipPhoneValidation = False\<rparr>
             sample_world
           = (Inr \<lparr>state_ID = ''m2'', state_State = Pending, state_DeviceID = ''D2'',
                   state_CreatedAt = 7, state_UpdatedAt = 7\<rparr>,
              sample_world\<lparr>w_messages := [stored_m1,
                \<lparr>msg_id = ''m2'', msg_owner_account_id = ''A'', msg_assigned_device_id = ''D2'',
                 msg_state = Pending, msg_payload = request_m2, msg_created_at = 7,
                 msg_updated_at = 7\<rparr>]\<rparr>)"
    by (simp add: messages_Enqeue_def request_m2_def sample_check_def D2_def l snapshot_def
        Let_def)
      (simp add: sample_world_def)
  have p: "post (core sample_check 7 ''g1'') 1 account_A (sample_ctx request_m2 Map.empty [])
     sample_world
   = (JSON StatusAccepted
        \<lparr>state_ID = ''m2'', state_State = Pending, state_DeviceID = ''D2'',
         state_CreatedAt = 7, state_UpdatedAt = 7\<rparr>
        (Some ''/3rdparty/v1/messages/m2''),
      sample_world\<lparr>w_messages := [stored_m1,
        \<lparr>msg_id = ''m2'', msg_owner_account_id = ''A'', msg_assigned_device_id = ''D2'',
         msg_state = Pending, msg_payload = request_m2, msg_created_at = 7,
         msg_updated_at = 7\<rparr>]\<rparr>)"
    by (simp add: post_def sample_ctx_Body core_def sample_select_A Random_def Intn_def
        sample_QueryBool_empty e post_reply_def)
      (simp add: sample_ctx_def)
  from p post_success_record [OF p] show ?thesis by (rule conjI)
qed

subsection \<open>Terminal states\<close>

text \<open>
  C7. A message whose state is terminal (\<open>Delivered\<close> or \<open>Failed\<close>) accepts no
  transition: the attempt to move it to any state fails with the invalid-transition
  error and the store is unchanged.
\<close>

theorem terminal_state_immutable:
  assumes "lookup_message account_id message_id w = Some m"
    and "is_terminal (msg_state m)"
  shows "messages_UpdateState now account_id message_id target w = (Inl ErrInvalidTransition, w)"
  using assms by (auto simp add: messages_UpdateState_def is_terminal_def)

theorem terminal_state_immutable_witness:
  "lookup_message ''A'' ''m9'' sample_world_delivered = Some stored_m9
   \<and> is_terminal (msg_state stored_m9)
   \<and> messages_UpdateState 8 ''A'' ''m9'' Failed sample_world_delivered
       = (Inl ErrInvalidTransition, sample_world_delivered)
   \<and> messages_UpdateState 8 ''A'' ''m1'' Processed sample_world_delivered
       = (Inr \<lparr>state_ID = ''m1'', state_State = Processed, state_DeviceID = ''D1'',
               state_CreatedAt = 5, state_UpdatedAt = 8\<rparr>,
          sample_world_delivered
            \<lparr>w_messages := [stored_m1\<lparr>msg_state := Processed, msg_updated_at := 8\<rparr>, stored_m9]\<rparr>)"
proof -
  have l: "lookup_message ''A'' ''m9'' sample_world_delivered = Some stored_m9"
    by (simp add: lookup_message_def sample_world_delivered_def stored_m1_def stored_m9_def)
  have t: "is_terminal (msg_state stored_m9)"
    by (simp add: is_terminal_def stored_m9_def)
  have l1: "lookup_message ''A'' ''m1'' sample_world_delivered = Some stored_m1"
    by (simp add: lookup_message_def sample_world_delivered_def stored_m1_def)
  have u: "messages_UpdateState 8 ''A'' ''m1'' Processed sample_world_delivered
       = (Inr \<lparr>state_ID = ''m1'', state_State = Processed, state_DeviceID = ''D1'',
               state_CreatedAt = 5, state_UpdatedAt = 8\<rparr>,
          sample_world_delivered
            \<lparr>w_messages := [stored_m1\<lparr>msg_state := Processed, msg_updated_at := 8\<rparr>, stored_m9]\<rparr>)"
    by (simp add: messages_UpdateState_def l1)
      (simp add: stored_m1_def stored_m9_def snapshot_def sample_world_delivered_def)
  from terminal_state_immutable [OF l t, of 8 Failed] l t u show ?thesis by simp
qed

subsection \<open>Duplicate ids\<close>




subsection \<open>Validation errors\<close>




subsection \<open>Device selection\<close>




end
